theory Spec2Isabelle
  imports Main
begin

section \<open>Values, errors and the network\<close>

text \<open>
  \<^verbatim>\<open>src/index.js\<close> holds two listings of the alerts client, one after the other, and the
  test suite of a city-weather client whose own functions (\<^verbatim>\<open>fetchWeatherData\<close>,
  \<^verbatim>\<open>displayWeather\<close>, \<^verbatim>\<open>displayError\<close>) are not part of the source. Both listings
  declare \<^verbatim>\<open>fetchWeatherAlerts\<close>, \<^verbatim>\<open>displayAlerts\<close> and \<^verbatim>\<open>showError\<close>; the
  definitions below keep these names, with the suffix 1 for the first listing (lines 1 to 85)
  and 2 for the second (lines 86 to 167).

  A thrown value is either an error object with a class name and a message (\<^verbatim>\<open>new Error(m)\<close> is
  \<open>Error m\<close>; what the network rejects with is such an object too), or the \<^verbatim>\<open>TypeError\<close>
  the engine throws when a property is read from \<^verbatim>\<open>undefined\<close> or \<^verbatim>\<open>null\<close>. Of the
  latter only the property that was read is recorded: its message is the engine's own wording
  (it differs between engines, and between \<^verbatim>\<open>undefined\<close> and \<^verbatim>\<open>null\<close>), so
  \<open>message\<close> says nothing about it. A promise that rejects with \<open>e\<close> and a \<^verbatim>\<open>throw e\<close> are
  both \<open>Inl e\<close>; a normal return of \<open>v\<close> is \<open>Inr v\<close>.
\<close>

datatype js_error =
    JsError (error_name: string) (message: string)
  | TypeError_reading string

definition Error :: "string \<Rightarrow> js_error" where
  "Error msg = JsError ''Error'' msg"

text \<open>
  The argument of \<^verbatim>\<open>fetchWeatherAlerts\<close> is a string (the click handler passes the
  upper-cased input), \<^verbatim>\<open>null\<close> or \<^verbatim>\<open>undefined\<close>. \<open>truthy\<close> is JavaScript's ToBoolean on these values (the test
  \<^verbatim>\<open>!state\<close> is its negation) and \<open>to_string\<close> is ToString, which the template literal
  \<^verbatim>\<open>`${weatherApi}${state}`\<close> applies.
\<close>

datatype js_value = Undefined | Null | Str string

fun truthy :: "js_value \<Rightarrow> bool" where
  "truthy Undefined = False"
| "truthy Null = False"
| "truthy (Str s) = (s \<noteq> [])"

fun to_string :: "js_value \<Rightarrow> string" where
  "to_string Undefined = ''undefined''"
| "to_string Null = ''null''"
| "to_string (Str s) = s"

text \<open>
  A response as the code reads it: the flag \<^verbatim>\<open>ok\<close>, the status, and what
  \<^verbatim>\<open>response.json()\<close> settles to (the parsed body, or the rejection of a body that is not
  JSON). The network is a function from the requested URL to the outcome of the request: a
  rejection (transport failure) or a response. The list of URLs requested so far is the
  observable state of the network; \<open>fetch\<close> appends to it.
\<close>

record 'a response =
  ok :: bool
  status :: nat
  json :: "js_error + 'a"

type_synonym 'a network = "string \<Rightarrow> js_error + 'a response"

definition fetch :: "'a network \<Rightarrow> string \<Rightarrow> string list \<Rightarrow> (js_error + 'a response) \<times> string list" where
  "fetch net url requests = (net url, requests @ [url])"

definition weatherApi :: string where
  "weatherApi = ''https://api.weather.gov/alerts/active?area=''"

section \<open>The fetcher\<close>

text \<open>First listing, lines 13 to 28.\<close>

definition fetchWeatherAlerts1 ::
  "'a network \<Rightarrow> js_value \<Rightarrow> string list \<Rightarrow> (js_error + 'a) \<times> string list" where
  "fetchWeatherAlerts1 net state requests =
     (if \<not> truthy state
      then (Inl (Error ''Please enter a state abbreviation.''), requests)
      else
        (case fetch net (weatherApi @ to_string state) requests of
           (Inl rejection, requests') \<Rightarrow> (Inl rejection, requests')
         | (Inr response, requests') \<Rightarrow>
             if \<not> ok response
             then (Inl (Error ''Failed to fetch data. Please check your state code.''), requests')
             else
               (case json response of
                  Inl rejection \<Rightarrow> (Inl rejection, requests')
                | Inr data \<Rightarrow> (Inr data, requests'))))"

text \<open>
  Second listing, lines 97 to 116: the same body inside \<^verbatim>\<open>try { ... } catch (error) { throw error; }\<close>.
  \<open>try_catch\<close> runs the handler on what the body threw, in the state the body left.
\<close>

definition try_catch ::
  "(js_error + 'a) \<times> 's \<Rightarrow> (js_error \<Rightarrow> 's \<Rightarrow> (js_error + 'a) \<times> 's) \<Rightarrow> (js_error + 'a) \<times> 's" where
  "try_catch body handler =
     (case body of
        (Inl error, s) \<Rightarrow> handler error s
      | (Inr v, s) \<Rightarrow> (Inr v, s))"

definition fetchWeatherAlerts2 ::
  "'a network \<Rightarrow> js_value \<Rightarrow> string list \<Rightarrow> (js_error + 'a) \<times> string list" where
  "fetchWeatherAlerts2 net state requests =
     try_catch
       (if \<not> truthy state
        then (Inl (Error ''Please enter a state abbreviation.''), requests)
        else
          (case fetch net (weatherApi @ to_string state) requests of
             (Inl rejection, requests') \<Rightarrow> (Inl rejection, requests')
           | (Inr response, requests') \<Rightarrow>
               if \<not> ok response
               then (Inl (Error ''Failed to fetch data. Please check your state code.''), requests')
               else
                 (case json response of
                    Inl rejection \<Rightarrow> (Inl rejection, requests')
                  | Inr data \<Rightarrow> (Inr data, requests'))))
       (\<lambda>error requests'. (Inl error, requests'))"

text \<open>
  The two behaviours the test suite gives the network: \<^verbatim>\<open>fetch.mockResolvedValueOnce(r)\<close>
  answers the request with the response \<open>r\<close>, \<^verbatim>\<open>fetch.mockRejectedValueOnce(e)\<close> rejects it
  with \<open>e\<close>.
\<close>

definition mockResolvedValue :: "'a response \<Rightarrow> 'a network" where
  "mockResolvedValue r url = Inr r"

definition mockRejectedValue :: "js_error \<Rightarrow> 'a network" where
  "mockRejectedValue e url = Inl e"

section \<open>The payload and the page\<close>

text \<open>
  The payload as \<^verbatim>\<open>displayAlerts\<close> reads it, field by field.
  \<^item> \<open>features\<close> is \<open>None\<close> when \<^verbatim>\<open>data.features\<close> is \<^verbatim>\<open>undefined\<close> (the field is absent)
    or \<^verbatim>\<open>null\<close>, and \<open>Some alerts\<close> when it is an array.
  \<^item> \<open>properties\<close> is \<open>None\<close> when \<^verbatim>\<open>alert.properties\<close> is \<^verbatim>\<open>undefined\<close> or
    \<^verbatim>\<open>null\<close>, and \<open>Some props\<close> for any other value: reading \<^verbatim>\<open>.headline\<close> throws in the
    first case only.
  \<^item> \<open>headline\<close> is \<open>None\<close> when \<^verbatim>\<open>alert.properties.headline\<close> is \<^verbatim>\<open>undefined\<close> or
    \<^verbatim>\<open>null\<close> (as it is on a \<^verbatim>\<open>properties\<close> without that field), and \<open>Some s\<close> when it is
    the string \<open>s\<close>.

  Fields the renderer never reads are left out. Payloads of other shapes are not values of
  this type, and nothing below is stated about them: a \<^verbatim>\<open>features\<close> that is neither missing
  nor an array (on a number, a boolean, a string or an object \<^verbatim>\<open>.length\<close> does not throw), an
  element of the array that is \<^verbatim>\<open>null\<close>, a headline that is neither missing nor a string.
\<close>

record alert_properties =
  headline :: "string option"

record alert =
  properties :: "alert_properties option"

record payload =
  features :: "alert list option"

text \<open>
  The nodes the renderer creates, and the page: the value of the input \<^verbatim>\<open>stateInput\<close>, the
  children of \<^verbatim>\<open>alertsDiv\<close>, and of \<^verbatim>\<open>errorDiv\<close> its class list (first listing), its
  inline \<^verbatim>\<open>style.display\<close> (second listing) and its text. The four elements are taken to
  exist in the page.
\<close>

datatype node = TextNode string | Element string "node list"

record dom =
  stateInput_value :: string
  alertsDiv :: "node list"
  errorDiv_classList :: "string list"
  errorDiv_display :: string
  errorDiv_text :: string

definition createElement :: "string \<Rightarrow> node" where
  "createElement tag = Element tag []"

text \<open>
  Assigning \<^verbatim>\<open>textContent\<close> replaces the children by one text node, or by none when the
  string is empty; \<^verbatim>\<open>null\<close> and \<^verbatim>\<open>undefined\<close> are assigned as the empty string
  (\<open>DOMString\<close>). The renderer calls \<open>set_textContent\<close> and \<open>appendChild\<close> on elements only.
\<close>

fun set_textContent :: "node \<Rightarrow> string \<Rightarrow> node" where
  "set_textContent (Element tag cs) s = Element tag (if s = [] then [] else [TextNode s])"
| "set_textContent (TextNode t) s = TextNode s"

fun appendChild :: "node \<Rightarrow> node \<Rightarrow> node" where
  "appendChild (Element tag cs) child = Element tag (cs @ [child])"
| "appendChild (TextNode t) child = TextNode t"

fun textContent :: "node \<Rightarrow> string" where
  "textContent (TextNode t) = t"
| "textContent (Element tag cs) = concat (map textContent cs)"

fun DOMString :: "string option \<Rightarrow> string" where
  "DOMString None = []"
| "DOMString (Some s) = s"

definition classList_add :: "string \<Rightarrow> string list \<Rightarrow> string list" where
  "classList_add token tokens = (if token \<in> set tokens then tokens else tokens @ [token])"

definition classList_remove :: "string \<Rightarrow> string list \<Rightarrow> string list" where
  "classList_remove token tokens = removeAll token tokens"

text \<open>The decimal digits of a count, as the template literal \<^verbatim>\<open>${alertCount}\<close> prints it.\<close>

fun number_to_string :: "nat \<Rightarrow> string" where
  "number_to_string n =
     (if n < 10 then [''0123456789'' ! n]
      else number_to_string (n div 10) @ [''0123456789'' ! (n mod 10)])"

declare number_to_string.simps [simp del]

text \<open>The number a string of decimal digits denotes, to check \<open>number_to_string\<close> against.\<close>

definition parse_decimal :: "string \<Rightarrow> nat" where
  "parse_decimal s = foldl (\<lambda>n c. 10 * n + (of_char c - 48)) 0 s"

section \<open>The renderer\<close>

text \<open>
  The body of \<^verbatim>\<open>data.features.forEach(alert => { ... })\<close>, the same in both listings: one
  \<^verbatim>\<open>li\<close> per alert appended to the list, in order. \<^verbatim>\<open>alert.properties.headline\<close> throws
  when the alert has no \<^verbatim>\<open>properties\<close>, which ends the loop and the caller.
\<close>

fun forEach_alert :: "alert list \<Rightarrow> node \<Rightarrow> js_error + node" where
  "forEach_alert [] list = Inr list"
| "forEach_alert (alert # rest) list =
     (case properties alert of
        None \<Rightarrow> Inl (TypeError_reading ''headline'')
      | Some props \<Rightarrow>
          (let item = set_textContent (createElement ''li'') (DOMString (headline props))
           in forEach_alert rest (appendChild list item)))"

text \<open>
  First listing, lines 31 to 63. The result pairs the outcome of the call (\<open>Inr ()\<close> for a
  normal return, \<open>Inl e\<close> when \<open>e\<close> was thrown) with the page as the call left it.
\<close>

definition displayAlerts1 :: "string \<Rightarrow> payload \<Rightarrow> dom \<Rightarrow> (js_error + unit) \<times> dom" where
  "displayAlerts1 state data d0 =
     (let d1 = d0\<lparr>alertsDiv := []\<rparr>;
          d2 = d1\<lparr>errorDiv_classList := classList_add ''hidden'' (errorDiv_classList d1)\<rparr>;
          d3 = d2\<lparr>errorDiv_text := []\<rparr>
      in case features data of
           None \<Rightarrow> (Inl (TypeError_reading ''length''), d3)
         | Some alerts \<Rightarrow>
             (let alertCount = length alerts;
                  summary = set_textContent (createElement ''h3'')
                              (''Weather Alerts: '' @ number_to_string alertCount);
                  d4 = d3\<lparr>alertsDiv := alertsDiv d3 @ [summary]\<rparr>
              in if alertCount > 0
                 then
                   (case forEach_alert alerts (createElement ''ul'') of
                      Inl e \<Rightarrow> (Inl e, d4)
                    | Inr list \<Rightarrow>
                        (let d5 = d4\<lparr>alertsDiv := alertsDiv d4 @ [list]\<rparr>
                         in (Inr (), d5\<lparr>stateInput_value := []\<rparr>)))
                 else
                   (let noAlerts = set_textContent (createElement ''p'') ''No alerts at this time.'';
                        d5 = d4\<lparr>alertsDiv := alertsDiv d4 @ [noAlerts]\<rparr>
                    in (Inr (), d5\<lparr>stateInput_value := []\<rparr>))))"

text \<open>First listing, lines 66 to 73.\<close>

definition showError1 :: "string \<Rightarrow> dom \<Rightarrow> dom" where
  "showError1 msg d0 =
     (let d1 = d0\<lparr>alertsDiv := []\<rparr>;
          d2 = d1\<lparr>errorDiv_classList := classList_remove ''hidden'' (errorDiv_classList d1)\<rparr>
      in d2\<lparr>errorDiv_text := msg\<rparr>)"

text \<open>Second listing, lines 119 to 149.\<close>

definition displayAlerts2 :: "string \<Rightarrow> payload \<Rightarrow> dom \<Rightarrow> (js_error + unit) \<times> dom" where
  "displayAlerts2 state data d0 =
     (let d1 = d0\<lparr>alertsDiv := []\<rparr>;
          d2 = d1\<lparr>errorDiv_display := ''none''\<rparr>;
          d3 = d2\<lparr>errorDiv_text := []\<rparr>
      in case features data of
           None \<Rightarrow> (Inl (TypeError_reading ''length''), d3)
         | Some alerts \<Rightarrow>
             (let alertCount = length alerts;
                  summary = set_textContent (createElement ''h3'')
                              (''Current watches, warnings, and advisories for '' @ state @ '': ''
                                 @ number_to_string alertCount);
                  d4 = d3\<lparr>alertsDiv := alertsDiv d3 @ [summary]\<rparr>
              in if alertCount > 0
                 then
                   (case forEach_alert alerts (createElement ''ul'') of
                      Inl e \<Rightarrow> (Inl e, d4)
                    | Inr list \<Rightarrow>
                        (let d5 = d4\<lparr>alertsDiv := alertsDiv d4 @ [list]\<rparr>
                         in (Inr (), d5\<lparr>stateInput_value := []\<rparr>)))
                 else
                   (let noAlerts = set_textContent (createElement ''p'') ''No alerts at this time.'';
                        d5 = d4\<lparr>alertsDiv := alertsDiv d4 @ [noAlerts]\<rparr>
                    in (Inr (), d5\<lparr>stateInput_value := []\<rparr>))))"

text \<open>Second listing, lines 152 to 155.\<close>

definition showError2 :: "string \<Rightarrow> dom \<Rightarrow> dom" where
  "showError2 msg d0 =
     (let d1 = d0\<lparr>errorDiv_display := ''block''\<rparr>
      in d1\<lparr>errorDiv_text := msg\<rparr>)"

text \<open>
  What the page shows. The results region is populated when \<^verbatim>\<open>alertsDiv\<close> has children.
  The error region of the first listing is visible unless its class list holds
  \<^verbatim>\<open>hidden\<close>; that of the second unless its inline display is \<^verbatim>\<open>none\<close>.
\<close>

definition results_populated :: "dom \<Rightarrow> bool" where
  "results_populated d = (alertsDiv d \<noteq> [])"

definition error_visible1 :: "dom \<Rightarrow> bool" where
  "error_visible1 d = (''hidden'' \<notin> set (errorDiv_classList d))"

definition error_visible2 :: "dom \<Rightarrow> bool" where
  "error_visible2 d = (errorDiv_display d \<noteq> ''none'')"

text \<open>
  An alert whose \<^verbatim>\<open>properties\<close> is neither \<^verbatim>\<open>undefined\<close> nor \<^verbatim>\<open>null\<close>, and a payload
  whose \<^verbatim>\<open>features\<close> is an array of such alerts.
\<close>

definition has_properties :: "alert \<Rightarrow> bool" where
  "has_properties a = (properties a \<noteq> None)"

definition renderable :: "payload \<Rightarrow> bool" where
  "renderable data = (case features data of None \<Rightarrow> False | Some alerts \<Rightarrow> list_all has_properties alerts)"


definition alert_headline :: "alert \<Rightarrow> string option" where
  "alert_headline a = (case properties a of None \<Rightarrow> None | Some props \<Rightarrow> headline props)"

definition list_item :: "alert \<Rightarrow> node" where
  "list_item a = set_textContent (createElement ''li'') (DOMString (alert_headline a))"

section \<open>Properties of the fetcher\<close>

lemma try_catch_rethrow: "try_catch body (\<lambda>error s. (Inl error, s)) = body"
  by (cases body) (auto simp: try_catch_def split: sum.splits)

lemma not_truthy_iff: "\<not> truthy state \<longleftrightarrow> state = Undefined \<or> state = Null \<or> state = Str []"
  by (cases state) auto

text \<open>
  C9. The two definitions of \<^verbatim>\<open>fetchWeatherAlerts\<close> agree on every argument, every behaviour
  of the network (a rejection, a response that is not ok, an ok response whose body parses or
  does not) and every request log: the same payload or the same thrown error, and the same
  requests issued.
\<close>

theorem fetchWeatherAlerts_listings_agree:
  "fetchWeatherAlerts2 net state requests = fetchWeatherAlerts1 net state requests"
  unfolding fetchWeatherAlerts2_def fetchWeatherAlerts1_def
  by (rule try_catch_rethrow)

text \<open>
  C6. When the request is rejected (a transport failure), \<^verbatim>\<open>fetchWeatherAlerts\<close> fails with
  the very error the network gave, class and message unchanged, in both listings. The request
  is only made for an argument that passed the input check.
\<close>

theorem fetchWeatherAlerts_rejection_passes_through:
  assumes "truthy state"
    and "net (weatherApi @ to_string state) = Inl rejection"
  shows "fst (fetchWeatherAlerts1 net state requests) = Inl rejection
       \<and> fst (fetchWeatherAlerts2 net state requests) = Inl rejection"
proof -
  have "fst (fetchWeatherAlerts1 net state requests) = Inl rejection"
    using assms by (simp add: fetchWeatherAlerts1_def fetch_def)
  moreover have "fetchWeatherAlerts2 net state requests = fetchWeatherAlerts1 net state requests"
    unfolding fetchWeatherAlerts2_def fetchWeatherAlerts1_def by (rule try_catch_rethrow)
  ultimately show ?thesis by simp
qed

theorem fetchWeatherAlerts_rejection_witness:
  "truthy (Str ''NY'')
   \<and> fst (fetchWeatherAlerts1 (mockRejectedValue (Error ''Network error'') :: payload network) (Str ''NY'') [])
       = Inl (Error ''Network error'')
   \<and> message (Error ''Network error'') = ''Network error''"
  using fetchWeatherAlerts_rejection_passes_through
          [of "Str ''NY''" "mockRejectedValue (Error ''Network error'') :: payload network"
              "Error ''Network error''" "[]"]
  by (simp add: mockRejectedValue_def Error_def)

text \<open>
  C2, as the code has it. An argument that is \<^verbatim>\<open>undefined\<close>, \<^verbatim>\<open>null\<close> or the empty string
  fails with the message of the state variant and the request log is left as it was: no request
  is made. Every other string, a string of spaces included, passes the check (nothing trims
  it) and the request for the base URL followed by that string is issued.
\<close>

theorem fetchWeatherAlerts_input_check:
  "(state \<in> {Undefined, Null, Str []} \<longrightarrow>
      fetchWeatherAlerts1 net state requests
        = (Inl (Error ''Please enter a state abbreviation.''), requests)
    \<and> fetchWeatherAlerts2 net state requests
        = (Inl (Error ''Please enter a state abbreviation.''), requests))
   \<and> (s \<noteq> [] \<longrightarrow>
      snd (fetchWeatherAlerts1 net (Str s) requests) = requests @ [weatherApi @ s]
    \<and> snd (fetchWeatherAlerts2 net (Str s) requests) = requests @ [weatherApi @ s])"
proof -
  have same: "fetchWeatherAlerts2 net x requests = fetchWeatherAlerts1 net x requests" for x
    unfolding fetchWeatherAlerts2_def fetchWeatherAlerts1_def by (rule try_catch_rethrow)
  have empty: "fetchWeatherAlerts1 net state requests
        = (Inl (Error ''Please enter a state abbreviation.''), requests)"
    if "state \<in> {Undefined, Null, Str []}"
    using that by (auto simp: fetchWeatherAlerts1_def)
  have other: "snd (fetchWeatherAlerts1 net (Str s) requests) = requests @ [weatherApi @ s]"
    if "s \<noteq> []"
    using that by (simp add: fetchWeatherAlerts1_def fetch_def split: sum.splits)
  show ?thesis using same empty other by simp
qed

theorem fetchWeatherAlerts_input_check_witness:
  "fetchWeatherAlerts1 (mockResolvedValue \<lparr>ok = True, status = 200, json = Inr \<lparr>features = Some []\<rparr>\<rparr>)
       (Str []) [] = (Inl (Error ''Please enter a state abbreviation.''), [])
   \<and> snd (fetchWeatherAlerts1 (mockResolvedValue \<lparr>ok = True, status = 200, json = Inr \<lparr>features = Some []\<rparr>\<rparr>)
       (Str ''   '') []) = [weatherApi @ ''   '']"
  using fetchWeatherAlerts_input_check
          [of "Str []" "mockResolvedValue \<lparr>ok = True, status = 200, json = Inr \<lparr>features = Some []\<rparr>\<rparr>"
              "[]" "''   ''"]
  by simp

text \<open>
  The claim C2 as stated fails on a string of three spaces: the first listing requests
  \<^verbatim>\<open>https://api.weather.gov/alerts/active?area=\<close> followed by the spaces and returns the
  payload of the answer.
\<close>

theorem fetchWeatherAlerts_whitespace_counterexample:
  "fetchWeatherAlerts1 (mockResolvedValue \<lparr>ok = True, status = 200, json = Inr \<lparr>features = Some []\<rparr>\<rparr>)
       (Str ''   '') []
     = (Inr \<lparr>features = Some []\<rparr>, [''https://api.weather.gov/alerts/active?area=   ''])"
  by (simp add: fetchWeatherAlerts1_def fetch_def mockResolvedValue_def weatherApi_def)

text \<open>
  C4, as the code has it. A response that is not ok makes \<^verbatim>\<open>fetchWeatherAlerts\<close> fail with
  one message, the same for every status (404, 401, 500 or any other), in both listings; the
  request has been issued.
\<close>

theorem fetchWeatherAlerts_not_ok:
  assumes "truthy state"
    and "net (weatherApi @ to_string state) = Inr response"
    and "\<not> ok response"
  shows "fetchWeatherAlerts1 net state requests
           = (Inl (Error ''Failed to fetch data. Please check your state code.''),
              requests @ [weatherApi @ to_string state])
       \<and> fetchWeatherAlerts2 net state requests
           = (Inl (Error ''Failed to fetch data. Please check your state code.''),
              requests @ [weatherApi @ to_string state])"
proof -
  have "fetchWeatherAlerts1 net state requests
           = (Inl (Error ''Failed to fetch data. Please check your state code.''),
              requests @ [weatherApi @ to_string state])"
    using assms by (simp add: fetchWeatherAlerts1_def fetch_def)
  moreover have "fetchWeatherAlerts2 net state requests = fetchWeatherAlerts1 net state requests"
    unfolding fetchWeatherAlerts2_def fetchWeatherAlerts1_def by (rule try_catch_rethrow)
  ultimately show ?thesis by simp
qed

theorem fetchWeatherAlerts_not_ok_witness:
  "truthy (Str ''ZZ'')
   \<and> \<not> ok \<lparr>ok = False, status = 404, json = Inr \<lparr>features = None\<rparr>\<rparr>
   \<and> fst (fetchWeatherAlerts1 (mockResolvedValue \<lparr>ok = False, status = 404, json = Inr \<lparr>features = None\<rparr>\<rparr>)
            (Str ''ZZ'') [])
       = Inl (Error ''Failed to fetch data. Please check your state code.'')"
  using fetchWeatherAlerts_not_ok
          [of "Str ''ZZ''" "mockResolvedValue \<lparr>ok = False, status = 404, json = Inr \<lparr>features = None\<rparr>\<rparr>"
              "\<lparr>ok = False, status = 404, json = Inr \<lparr>features = None\<rparr>\<rparr>" "[]"]
  by (simp add: mockResolvedValue_def)

text \<open>
  The claim C4 as stated fails on the statuses 401 and 500: the message is neither the one for
  an invalid API key nor the one asking to try again.
\<close>

theorem fetchWeatherAlerts_status_counterexample:
  "message (projl (fst (fetchWeatherAlerts2
       (mockResolvedValue \<lparr>ok = False, status = 401, json = Inr \<lparr>features = None\<rparr>\<rparr>) (Str ''NY'') [])))
     = ''Failed to fetch data. Please check your state code.''
   \<and> message (projl (fst (fetchWeatherAlerts2
       (mockResolvedValue \<lparr>ok = False, status = 401, json = Inr \<lparr>features = None\<rparr>\<rparr>) (Str ''NY'') [])))
     \<noteq> ''Invalid API key. Please check your configuration.''
   \<and> message (projl (fst (fetchWeatherAlerts1
       (mockResolvedValue \<lparr>ok = False, status = 500, json = Inr \<lparr>features = None\<rparr>\<rparr>) (Str ''NY'') [])))
     = ''Failed to fetch data. Please check your state code.''
   \<and> message (projl (fst (fetchWeatherAlerts1
       (mockResolvedValue \<lparr>ok = False, status = 500, json = Inr \<lparr>features = None\<rparr>\<rparr>) (Str ''NY'') [])))
     \<noteq> ''Failed to fetch weather data. Please try again.''"
  by (simp add: fetchWeatherAlerts1_def fetchWeatherAlerts2_def try_catch_def fetch_def
        mockResolvedValue_def Error_def)


section \<open>Properties of the renderer\<close>

text \<open>The count is printed in decimal: reading the digits back gives the number.\<close>

lemma digit_char: "k < 10 \<Longrightarrow> of_char (''0123456789'' ! k) = (48 + k :: nat)"
proof -
  assume "k < 10"
  then consider "k = 0" | "k = 1" | "k = 2" | "k = 3" | "k = 4" | "k = 5" | "k = 6" | "k = 7"
    | "k = 8" | "k = 9"
    by (atomize_elim, arith)
  then show ?thesis by cases simp_all
qed

lemma parse_decimal_number_to_string: "parse_decimal (number_to_string n) = n"
proof (induction n rule: number_to_string.induct)
  case (1 n)
  show ?case
  proof (cases "n < 10")
    case True
    then show ?thesis
      by (subst number_to_string.simps) (simp add: parse_decimal_def digit_char)
  next
    case False
    with 1 have "parse_decimal (number_to_string (n div 10)) = n div 10" by simp
    with False show ?thesis
      by (subst number_to_string.simps) (simp add: parse_decimal_def digit_char)
  qed
qed

text \<open>The loop over the alerts: it completes when every alert has \<^verbatim>\<open>properties\<close>, and throws otherwise.\<close>

lemma forEach_alert_ok:
  "list_all has_properties alerts \<Longrightarrow>
   forEach_alert alerts (Element tag cs) = Inr (Element tag (cs @ map list_item alerts))"
  by (induction alerts arbitrary: cs)
     (auto simp: has_properties_def list_item_def alert_headline_def split: option.splits)

lemma forEach_alert_throws:
  "\<not> list_all has_properties alerts \<Longrightarrow>
   forEach_alert alerts (Element tag cs) = Inl (TypeError_reading ''headline'')"
  by (induction alerts arbitrary: cs)
     (auto simp: has_properties_def split: option.splits)

lemma forEach_alert_eq:
  "forEach_alert alerts (Element tag cs) =
     (if list_all has_properties alerts then Inr (Element tag (cs @ map list_item alerts))
      else Inl (TypeError_reading ''headline''))"
  by (simp add: forEach_alert_ok forEach_alert_throws)



lemmas displayAlerts_unfold =
  displayAlerts1_def displayAlerts2_def Let_def createElement_def forEach_alert_eq

lemma displayAlerts_returns_iff:
  "fst (displayAlerts1 state data d) = Inr () \<longleftrightarrow> renderable data"
  "fst (displayAlerts2 state data d) = Inr () \<longleftrightarrow> renderable data"
  by (simp_all add: displayAlerts_unfold renderable_def split: option.splits)

lemma displayAlerts_error_region:
  "''hidden'' \<in> set (errorDiv_classList (snd (displayAlerts1 state data d)))"
  "errorDiv_text (snd (displayAlerts1 state data d)) = []"
  "errorDiv_display (snd (displayAlerts2 state data d)) = ''none''"
  "errorDiv_text (snd (displayAlerts2 state data d)) = []"
  by (simp_all add: displayAlerts_unfold classList_add_def split: option.splits)

lemma displayAlerts_input:
  "stateInput_value (snd (displayAlerts1 state data d)) =
     (if renderable data then [] else stateInput_value d)"
  "stateInput_value (snd (displayAlerts2 state data d)) =
     (if renderable data then [] else stateInput_value d)"
  by (simp_all add: displayAlerts_unfold renderable_def split: option.splits)


lemma showError_results:
  "alertsDiv (showError1 msg d) = []"
  "alertsDiv (showError2 msg d) = alertsDiv d"
  by (simp_all add: showError1_def showError2_def Let_def)

lemma showError_error_region:
  "''hidden'' \<notin> set (errorDiv_classList (showError1 msg d))"
  "errorDiv_text (showError1 msg d) = msg"
  "errorDiv_display (showError2 msg d) = ''block''"
  "errorDiv_text (showError2 msg d) = msg"
  by (simp_all add: showError1_def showError2_def Let_def classList_remove_def)

lemma listing1_regions_exclusive:
  "\<not> (results_populated (snd (displayAlerts1 state data d)) \<and> error_visible1 (snd (displayAlerts1 state data d)))"
  "\<not> (results_populated (showError1 msg d) \<and> error_visible1 (showError1 msg d))"
  by (simp_all add: results_populated_def error_visible1_def displayAlerts_error_region showError_results)

lemma showError2_keeps_both:
  "results_populated d \<Longrightarrow>
   results_populated (showError2 msg d) \<and> error_visible2 (showError2 msg d)"
  by (simp add: results_populated_def error_visible2_def showError_results showError_error_region)

text \<open>
  C1. The results region and the error region are not to be shown together. The first listing
  keeps to it (\<open>listing1_regions_exclusive\<close>): \<^verbatim>\<open>showError\<close> empties \<^verbatim>\<open>alertsDiv\<close>, and
  \<^verbatim>\<open>displayAlerts\<close> hides and empties the error region. The \<^verbatim>\<open>showError\<close> of the second
  listing only shows the error and leaves \<^verbatim>\<open>alertsDiv\<close> as it was: after
  \<^verbatim>\<open>displayAlerts("NY", {features: []})\<close> and then \<^verbatim>\<open>showError\<close> with the message of an
  empty input (a second click on the button, the input having been emptied by the first), the
  summary and the paragraph are still in \<^verbatim>\<open>alertsDiv\<close> while the error region is displayed
  with its message.
\<close>

theorem showError2_keeps_results_on_screen:
  "results_populated
     (showError2 ''Please enter a state abbreviation.''
        (snd (displayAlerts2 ''NY'' \<lparr>features = Some []\<rparr>
           \<lparr>stateInput_value = ''ny'', alertsDiv = [], errorDiv_classList = [],
            errorDiv_display = ''none'', errorDiv_text = []\<rparr>)))
   \<and> error_visible2
     (showError2 ''Please enter a state abbreviation.''
        (snd (displayAlerts2 ''NY'' \<lparr>features = Some []\<rparr>
           \<lparr>stateInput_value = ''ny'', alertsDiv = [], errorDiv_classList = [],
            errorDiv_display = ''none'', errorDiv_text = []\<rparr>)))
   \<and> showError2 ''Please enter a state abbreviation.''
        (snd (displayAlerts2 ''NY'' \<lparr>features = Some []\<rparr>
           \<lparr>stateInput_value = ''ny'', alertsDiv = [], errorDiv_classList = [],
            errorDiv_display = ''none'', errorDiv_text = []\<rparr>))
      = \<lparr>stateInput_value = [],
         alertsDiv = [Element ''h3'' [TextNode ''Current watches, warnings, and advisories for NY: 0''],
                      Element ''p'' [TextNode ''No alerts at this time.'']],
         errorDiv_classList = [], errorDiv_display = ''block'',
         errorDiv_text = ''Please enter a state abbreviation.''\<rparr>"
  by (simp add: results_populated_def error_visible2_def showError2_def displayAlerts2_def Let_def
        createElement_def number_to_string.simps)

text \<open>
  C3, as the code has it. \<^verbatim>\<open>showError\<close> has no statement that can throw: it is a function
  from pages to pages, for every message. \<^verbatim>\<open>displayAlerts\<close> throws a \<^verbatim>\<open>TypeError\<close> when
  \<^verbatim>\<open>features\<close> is absent or \<^verbatim>\<open>null\<close> (reading \<^verbatim>\<open>length\<close>), and when \<^verbatim>\<open>features\<close> is
  an array in which the \<^verbatim>\<open>properties\<close> of some alert is absent or \<^verbatim>\<open>null\<close> (reading
  \<^verbatim>\<open>headline\<close>). It returns normally when \<^verbatim>\<open>features\<close> is an array, empty or not, in which
  no alert's \<^verbatim>\<open>properties\<close> is absent or \<^verbatim>\<open>null\<close>, each headline being a string or
  missing: a missing headline does not make it throw. Both listings behave so.
\<close>

theorem displayAlerts_returns_or_throws:
  "(features data = None \<longrightarrow>
      fst (displayAlerts1 state data d) = Inl (TypeError_reading ''length'')
    \<and> fst (displayAlerts2 state data d) = Inl (TypeError_reading ''length''))
   \<and> (features data = Some alerts \<and> list_all has_properties alerts \<longrightarrow>
      fst (displayAlerts1 state data d) = Inr ()
    \<and> fst (displayAlerts2 state data d) = Inr ())
   \<and> (features data = Some alerts \<and> \<not> list_all has_properties alerts \<longrightarrow>
      fst (displayAlerts1 state data d) = Inl (TypeError_reading ''headline'')
    \<and> fst (displayAlerts2 state data d) = Inl (TypeError_reading ''headline''))"
proof -
  have nonempty: "alerts \<noteq> []" if "\<not> list_all has_properties alerts"
    using that by auto
  show ?thesis
    using nonempty by (auto simp: displayAlerts_unfold)
qed

theorem displayAlerts_returns_or_throws_witness:
  "fst (displayAlerts2 ''NY'' \<lparr>features = None\<rparr>
         \<lparr>stateInput_value = ''ny'', alertsDiv = [], errorDiv_classList = [],
          errorDiv_display = ''block'', errorDiv_text = ''old''\<rparr>) = Inl (TypeError_reading ''length'')
   \<and> fst (displayAlerts2 ''NY'' \<lparr>features = Some [\<lparr>properties = Some \<lparr>headline = None\<rparr>\<rparr>]\<rparr>
         \<lparr>stateInput_value = ''ny'', alertsDiv = [], errorDiv_classList = [],
          errorDiv_display = ''block'', errorDiv_text = ''old''\<rparr>) = Inr ()
   \<and> fst (displayAlerts2 ''NY'' \<lparr>features = Some [\<lparr>properties = None\<rparr>]\<rparr>
         \<lparr>stateInput_value = ''ny'', alertsDiv = [], errorDiv_classList = [],
          errorDiv_display = ''block'', errorDiv_text = ''old''\<rparr>) = Inl (TypeError_reading ''headline'')"
  using displayAlerts_returns_or_throws
          [of "\<lparr>features = None\<rparr>" "''NY''"
              "\<lparr>stateInput_value = ''ny'', alertsDiv = [], errorDiv_classList = [],
                errorDiv_display = ''block'', errorDiv_text = ''old''\<rparr>" "[]"]
        displayAlerts_returns_or_throws
          [of "\<lparr>features = Some [\<lparr>properties = Some \<lparr>headline = None\<rparr>\<rparr>]\<rparr>" "''NY''"
              "\<lparr>stateInput_value = ''ny'', alertsDiv = [], errorDiv_classList = [],
                errorDiv_display = ''block'', errorDiv_text = ''old''\<rparr>"
              "[\<lparr>properties = Some \<lparr>headline = None\<rparr>\<rparr>]"]
        displayAlerts_returns_or_throws
          [of "\<lparr>features = Some [\<lparr>properties = None\<rparr>]\<rparr>" "''NY''"
              "\<lparr>stateInput_value = ''ny'', alertsDiv = [], errorDiv_classList = [],
                errorDiv_display = ''block'', errorDiv_text = ''old''\<rparr>"
              "[\<lparr>properties = None\<rparr>]"]
  by (simp add: has_properties_def)

text \<open>
  The claim C3 as stated fails on a payload without \<^verbatim>\<open>features\<close>: both listings throw the
  \<^verbatim>\<open>TypeError\<close> of \<^verbatim>\<open>data.features.length\<close>.
\<close>

theorem displayAlerts_throws_counterexample:
  "fst (displayAlerts1 ''NY'' \<lparr>features = None\<rparr>
         \<lparr>stateInput_value = ''ny'', alertsDiv = [], errorDiv_classList = [''hidden''],
          errorDiv_display = ''none'', errorDiv_text = []\<rparr>) = Inl (TypeError_reading ''length'')
   \<and> fst (displayAlerts2 ''NY'' \<lparr>features = None\<rparr>
         \<lparr>stateInput_value = ''ny'', alertsDiv = [], errorDiv_classList = [''hidden''],
          errorDiv_display = ''none'', errorDiv_text = []\<rparr>) = Inl (TypeError_reading ''length'')"
  by (simp add: displayAlerts1_def displayAlerts2_def Let_def)

text \<open>
  C5, as the code has it. On every payload that has \<^verbatim>\<open>features\<close>, and for every location
  and every page, the first child that the \<^verbatim>\<open>displayAlerts\<close> of the second listing writes to
  \<^verbatim>\<open>alertsDiv\<close> is an \<^verbatim>\<open>h3\<close> whose text is the sentence of the claim: the location, a
  colon, and the number of alerts in decimal. The summary is written before the alerts are
  walked, so it is there also when the walk throws.
\<close>

theorem displayAlerts_summary:
  assumes "features data = Some alerts"
  shows "\<exists>rest. alertsDiv (snd (displayAlerts2 state data d)) =
            Element ''h3'' [TextNode (''Current watches, warnings, and advisories for '' @ state
                                      @ '': '' @ number_to_string (length alerts))] # rest"
  using assms by (simp add: displayAlerts_unfold)

theorem displayAlerts_summary_witness:
  "features \<lparr>features = Some [\<lparr>properties = Some \<lparr>headline = Some ''Flood Warning''\<rparr>\<rparr>]\<rparr>
     = Some [\<lparr>properties = Some \<lparr>headline = Some ''Flood Warning''\<rparr>\<rparr>]
   \<and> (\<exists>rest. alertsDiv (snd (displayAlerts2 ''NY''
            \<lparr>features = Some [\<lparr>properties = Some \<lparr>headline = Some ''Flood Warning''\<rparr>\<rparr>]\<rparr>
            \<lparr>stateInput_value = ''ny'', alertsDiv = [], errorDiv_classList = [],
             errorDiv_display = ''none'', errorDiv_text = []\<rparr>)) =
          Element ''h3'' [TextNode ''Current watches, warnings, and advisories for NY: 1''] # rest)"
  using displayAlerts_summary
          [of "\<lparr>features = Some [\<lparr>properties = Some \<lparr>headline = Some ''Flood Warning''\<rparr>\<rparr>]\<rparr>"
              "[\<lparr>properties = Some \<lparr>headline = Some ''Flood Warning''\<rparr>\<rparr>]" "''NY''"
              "\<lparr>stateInput_value = ''ny'', alertsDiv = [], errorDiv_classList = [],
                errorDiv_display = ''none'', errorDiv_text = []\<rparr>"]
  by (simp add: number_to_string.simps)

text \<open>
  The claim C5 as stated fails on a payload without \<^verbatim>\<open>features\<close>, where nothing is
  written, and in the first listing, whose summary is \<^verbatim>\<open>Weather Alerts: \<close> followed by the
  count (its \<^verbatim>\<open>state\<close> parameter is not used).
\<close>

theorem displayAlerts_summary_counterexample:
  "alertsDiv (snd (displayAlerts2 ''NY'' \<lparr>features = None\<rparr>
         \<lparr>stateInput_value = ''ny'', alertsDiv = [], errorDiv_classList = [''hidden''],
          errorDiv_display = ''none'', errorDiv_text = []\<rparr>)) = []
   \<and> map textContent (alertsDiv (snd (displayAlerts1 ''NY'' \<lparr>features = Some []\<rparr>
         \<lparr>stateInput_value = ''ny'', alertsDiv = [], errorDiv_classList = [''hidden''],
          errorDiv_display = ''none'', errorDiv_text = []\<rparr>)))
     = [''Weather Alerts: 0'', ''No alerts at this time.'']
   \<and> ''Weather Alerts: 0'' \<noteq> ''Current watches, warnings, and advisories for NY: 0''"
  by (simp add: displayAlerts1_def displayAlerts2_def Let_def createElement_def
        number_to_string.simps)




text \<open>
  C8, as the code has it. Whatever the page showed before and whatever the payload, a call of
  \<^verbatim>\<open>displayAlerts\<close> leaves the error region hidden and its text empty, also when the call
  throws. The input is emptied by the last statement: it is empty after a call that returns
  normally, and as it was after a call that throws.
\<close>

theorem displayAlerts_error_region_and_input:
  "\<not> error_visible1 (snd (displayAlerts1 state data d))
   \<and> errorDiv_text (snd (displayAlerts1 state data d)) = []
   \<and> \<not> error_visible2 (snd (displayAlerts2 state data d))
   \<and> errorDiv_text (snd (displayAlerts2 state data d)) = []
   \<and> stateInput_value (snd (displayAlerts1 state data d))
       = (if fst (displayAlerts1 state data d) = Inr () then [] else stateInput_value d)
   \<and> stateInput_value (snd (displayAlerts2 state data d))
       = (if fst (displayAlerts2 state data d) = Inr () then [] else stateInput_value d)"
  by (simp add: error_visible1_def error_visible2_def displayAlerts_error_region
        displayAlerts_input displayAlerts_returns_iff)

theorem displayAlerts_error_region_and_input_witness:
  "fst (displayAlerts2 ''NY'' \<lparr>features = Some []\<rparr>
          (showError2 ''Network error''
             \<lparr>stateInput_value = ''ny'', alertsDiv = [], errorDiv_classList = [],
              errorDiv_display = ''none'', errorDiv_text = []\<rparr>)) = Inr ()
   \<and> \<not> error_visible2 (snd (displayAlerts2 ''NY'' \<lparr>features = Some []\<rparr>
          (showError2 ''Network error''
             \<lparr>stateInput_value = ''ny'', alertsDiv = [], errorDiv_classList = [],
              errorDiv_display = ''none'', errorDiv_text = []\<rparr>)))
   \<and> errorDiv_text (snd (displayAlerts2 ''NY'' \<lparr>features = Some []\<rparr>
          (showError2 ''Network error''
             \<lparr>stateInput_value = ''ny'', alertsDiv = [], errorDiv_classList = [],
              errorDiv_display = ''none'', errorDiv_text = []\<rparr>))) = []
   \<and> stateInput_value (snd (displayAlerts2 ''NY'' \<lparr>features = Some []\<rparr>
          (showError2 ''Network error''
             \<lparr>stateInput_value = ''ny'', alertsDiv = [], errorDiv_classList = [],
              errorDiv_display = ''none'', errorDiv_text = []\<rparr>))) = []"
proof -
  have returns: "fst (displayAlerts2 ''NY'' \<lparr>features = Some []\<rparr>
          (showError2 ''Network error''
             \<lparr>stateInput_value = ''ny'', alertsDiv = [], errorDiv_classList = [],
              errorDiv_display = ''none'', errorDiv_text = []\<rparr>)) = Inr ()"
    by (simp add: displayAlerts2_def Let_def)
  show ?thesis
    using returns displayAlerts_error_region_and_input
          [of "''NY''" "\<lparr>features = Some []\<rparr>"
              "showError2 ''Network error''
                 \<lparr>stateInput_value = ''ny'', alertsDiv = [], errorDiv_classList = [],
                  errorDiv_display = ''none'', errorDiv_text = []\<rparr>"]
    by simp
qed

text \<open>
  The claim C8 as stated fails on a payload without \<^verbatim>\<open>features\<close>: the call throws before
  it reaches the statement that empties the input, which keeps its value.
\<close>

theorem displayAlerts_input_counterexample:
  "stateInput_value (snd (displayAlerts1 ''NY'' \<lparr>features = None\<rparr>
         \<lparr>stateInput_value = ''ny'', alertsDiv = [], errorDiv_classList = [''hidden''],
          errorDiv_display = ''none'', errorDiv_text = []\<rparr>)) = ''ny''
   \<and> stateInput_value (snd (displayAlerts2 ''NY'' \<lparr>features = None\<rparr>
         \<lparr>stateInput_value = ''ny'', alertsDiv = [], errorDiv_classList = [''hidden''],
          errorDiv_display = ''none'', errorDiv_text = []\<rparr>)) = ''ny''"
  by (simp add: displayAlerts1_def displayAlerts2_def Let_def)

text \<open>
  C10. \<^verbatim>\<open>showError\<close> does not touch the input: its value after the call is its value
  before, for every message and every page, in both listings.
\<close>

theorem showError_keeps_input:
  "stateInput_value (showError1 msg d) = stateInput_value d
   \<and> stateInput_value (showError2 msg d) = stateInput_value d"
  by (simp add: showError1_def showError2_def Let_def)

end
